theory Spec2Isabelle
  imports Main
begin

section \<open>Shared JavaScript-level notions\<close>

text \<open>
  A JavaScript exception is a value of the model. The only exception the modelled code
  raises itself is the \<open>TypeError\<close> of a property access on \<open>undefined\<close> or \<open>null\<close>.
\<close>

datatype error = TypeError

text \<open>What a call hands back when it returns: \<open>undefined\<close>, \<open>null\<close>, or an object.\<close>

datatype 'a js_value = Undefined | Null | Object 'a

text \<open>
  Array indexing \<open>xs[i]\<close>: outside \<open>0 .. length - 1\<close> JavaScript yields \<open>undefined\<close>
  (here \<open>None\<close>) and raises nothing.
\<close>

definition js_index :: "'a list \<Rightarrow> int \<Rightarrow> 'a option" where
  "js_index xs i = (if 0 \<le> i \<and> i < int (length xs) then Some (xs ! nat i) else None)"

section \<open>Route (src/unnamed/part_000)\<close>

text \<open>
  The metadata fields shared by the JSON object and the Route instance. Numbers are kept
  abstract (\<open>'n\<close>); \<open>style\<close> and \<open>type\<close> are strings. \<open>None\<close> is \<open>null\<close>/\<open>undefined\<close>.
  The fields \<open>id\<close>, \<open>length\<close> and \<open>type\<close> of the source are \<open>route_id\<close>,
  \<open>route_length\<close> and \<open>route_type\<close> here.
\<close>

record 'n route_meta =
  route_id :: "'n option"
  center :: "'n option"
  style :: "string option"
  route_length :: "'n option"
  maxM :: "'n option"
  minM :: "'n option"
  route_type :: "string option"

text \<open>The JSON object given to \<open>Route.fromJson\<close>: the metadata, \<open>parts\<close> and \<open>points\<close>.\<close>

record ('n, 'j) route_json = "'n route_meta" +
  parts :: "int list option"
  points :: "'j list option"

text \<open>
  The two geometries a part can become. The element type \<open>'e\<close> is what the point
  list holds; \<open>Route.fromJson\<close> stores whatever \<open>PointWithMeasure.fromJson\<close> returned,
  which may be \<open>undefined\<close>. The classes are \<open>SuperMap.Geometry.LinearRing\<close> and
  \<open>SuperMap.Geometry.LineString\<close>; the \<open>M\<close> marks the measured points they hold here.
\<close>

datatype 'e line = LinearRingM "'e list" | LineStringM "'e list"


fun is_ring :: "'e line \<Rightarrow> bool" where
  "is_ring (LinearRingM ps) = True"
| "is_ring (LineStringM ps) = False"

text \<open>
  Modelled from the spec: the \<open>Route\<close> constructor and its superclass
  \<open>SuperMap.Geometry.Collection\<close> are not in src. Per the data model a Route is a
  Collection (its \<open>components\<close>) plus the metadata and \<open>parts\<close>; the constructor stores
  the line list as \<open>components\<close> and copies the options onto the instance.
\<close>

record ('n, 'e) route = "'n route_meta" +
  route_parts :: "int list option"
  components :: "'e line list"

text \<open>
  The inner loop of \<open>Route.fromJson\<close> (lines 195-197): \<open>k\<close> iterations left, reading
  \<open>geoPoints[idx]\<close>, \<open>geoPoints[idx + 1]\<close>, ... and pushing what
  \<open>PointWithMeasure.fromJson\<close> makes of each. That function is not in src and is the
  parameter \<open>pwm\<close>: it gets the array element or \<open>undefined\<close> (\<open>None\<close>) and either throws
  (\<open>Inl\<close>) or returns an object or \<open>undefined\<close>/\<open>null\<close> (\<open>Inr None\<close>).
\<close>

fun push_points :: "('j option \<Rightarrow> error + 'p option) \<Rightarrow> 'j list \<Rightarrow> int \<Rightarrow> nat
    \<Rightarrow> error + 'p option list" where
  "push_points pwm geoPoints idx 0 = Inr []"
| "push_points pwm geoPoints idx (Suc k) =
     (case pwm (js_index geoPoints idx) of
        Inl e \<Rightarrow> Inl e
      | Inr p \<Rightarrow>
          (case push_points pwm geoPoints (idx + 1) k of
             Inl e \<Rightarrow> Inl e
           | Inr ps \<Rightarrow> Inr (p # ps)))"

text \<open>
  The classification of one part (lines 200-204): \<open>pointList[0].equals(pointList[n - 1])\<close>.
  The method call on an \<open>undefined\<close> first element is a TypeError. \<open>equals\<close> is the
  points' own method, not in src, and a parameter; its argument may be \<open>undefined\<close>.
\<close>

definition classify :: "('p \<Rightarrow> 'p option \<Rightarrow> bool) \<Rightarrow> int \<Rightarrow> 'p option list
    \<Rightarrow> error + 'p option line" where
  "classify equals n pointList =
     (case js_index pointList 0 of
        None \<Rightarrow> Inl TypeError
      | Some None \<Rightarrow> Inl TypeError
      | Some (Some p0) \<Rightarrow>
          (let lastp = (case js_index pointList (n - 1) of None \<Rightarrow> None | Some v \<Rightarrow> v)
           in if equals p0 lastp then Inr (LinearRingM pointList)
              else Inr (LineStringM pointList)))"

text \<open>
  The outer loop (lines 194-206) over the remaining entries of \<open>geoParts\<close>, with the
  cursor \<open>pointIndex\<close>. The loop test \<open>j < geoParts[i]\<close> runs \<open>nat n\<close> times (none for
  \<open>n \<le> 0\<close>); the cursor advances by \<open>n\<close> itself.
\<close>

fun parts_loop :: "('j option \<Rightarrow> error + 'p option) \<Rightarrow> ('p \<Rightarrow> 'p option \<Rightarrow> bool)
    \<Rightarrow> 'j list \<Rightarrow> int \<Rightarrow> int list \<Rightarrow> error + 'p option line list" where
  "parts_loop pwm equals geoPoints pointIndex [] = Inr []"
| "parts_loop pwm equals geoPoints pointIndex (n # rest) =
     (case push_points pwm geoPoints pointIndex (nat n) of
        Inl e \<Rightarrow> Inl e
      | Inr pointList \<Rightarrow>
          (case classify equals n pointList of
             Inl e \<Rightarrow> Inl e
           | Inr geom \<Rightarrow>
               (case parts_loop pwm equals geoPoints (pointIndex + n) rest of
                  Inl e \<Rightarrow> Inl e
                | Inr lineList \<Rightarrow> Inr (geom # lineList))))"

definition fromJson :: "('j option \<Rightarrow> error + 'p option) \<Rightarrow> ('p \<Rightarrow> 'p option \<Rightarrow> bool)
    \<Rightarrow> ('n, 'j) route_json option \<Rightarrow> error + ('n, 'p option) route js_value" where
  "fromJson pwm equals jsonObject =
     (case jsonObject of
        None \<Rightarrow> Inr Undefined
      | Some jo \<Rightarrow>
          (let geoParts = (case parts jo of None \<Rightarrow> [] | Some ps \<Rightarrow> ps);
               geoPoints = (case points jo of None \<Rightarrow> [] | Some ps \<Rightarrow> ps)
           in if length geoParts > 0
              then (case parts_loop pwm equals geoPoints 0 geoParts of
                      Inl e \<Rightarrow> Inl e
                    | Inr lineList \<Rightarrow>
                        Inr (Object \<lparr> route_id = route_id jo, center = center jo,
                                       style = style jo, route_length = route_length jo,
                                       maxM = maxM jo, minM = minM jo,
                                       route_type = route_type jo,
                                       route_parts = parts jo, components = lineList \<rparr>))
              else Inr Null))"

subsection \<open>The partition the specification describes\<close>



subsection \<open>Points of a route\<close>

text \<open>One entry of the JSON \<open>points\<close> array: \<open>{x, y, measure}\<close>.\<close>

datatype 'c json_point = JsonPoint (json_x: 'c) (json_y: 'c) (json_measure: 'c)

text \<open>
  Modelled from the spec: the class \<open>PointWithMeasure\<close> is imported by the source but is
  not in src. Per the data model a MeasuredPoint is a Point (\<open>x\<close>, \<open>y\<close>) with a
  \<open>measure\<close>; the coordinate type is left open.
\<close>

datatype 'c measured_point = PointWithMeasure (point_x: 'c) (point_y: 'c) (point_measure: 'c)

text \<open>
  Modelled from the spec: \<open>PointWithMeasure.fromJson\<close> is not in src. Each
  \<open>{x, y, measure}\<close> entry becomes a MeasuredPoint with the same three values. For an
  \<open>undefined\<close> argument the specification says nothing; this instance hands
  \<open>undefined\<close> back. The general theorems below do not use this definition: they take
  the point decoder as the parameter \<open>pwm\<close>.
\<close>

definition PointWithMeasure_fromJson :: "'c json_point option \<Rightarrow> error + 'c measured_point option" where
  "PointWithMeasure_fromJson v =
     (case v of
        None \<Rightarrow> Inr None
      | Some j \<Rightarrow> Inr (Some (PointWithMeasure (json_x j) (json_y j) (json_measure j))))"

text \<open>
  Modelled from the spec: the points' \<open>equals\<close> method is not in src. Point equality is
  exact equality of the coordinates \<open>x\<close> and \<open>y\<close>; nothing equals \<open>undefined\<close>.
\<close>

definition coordinate_equal :: "'c measured_point \<Rightarrow> 'c measured_point option \<Rightarrow> bool" where
  "coordinate_equal p v =
     (case v of None \<Rightarrow> False | Some q \<Rightarrow> point_x p = point_x q \<and> point_y p = point_y q)"


text \<open>A JSON object with no metadata, only \<open>parts\<close> and \<open>points\<close>.\<close>

definition json_of :: "int list option \<Rightarrow> 'j list option \<Rightarrow> (int, 'j) route_json" where
  "json_of ps gp = \<lparr> route_id = None, center = None, style = None, route_length = None,
     maxM = None, minM = None, route_type = None, parts = ps, points = gp \<rparr>"





subsection \<open>Encoding a route\<close>







section \<open>WKT (src/src/common/format/WKT.js)\<close>

subsection \<open>Strings and the regular expressions of the constructor\<close>

text \<open>
  A string is a list of characters with codes below 256. The classes of the regular
  expressions on these codes: \<open>\s\<close> is tab, line feed, vertical tab, form feed,
  carriage return, space and no-break space; \<open>\w\<close> is a letter, a digit or the
  underscore; a line terminator (what \<open>.\<close> refuses) is line feed or carriage return.
\<close>

definition is_space :: "char \<Rightarrow> bool" where
  "is_space c = (let n = (of_char c :: nat) in (9 \<le> n \<and> n \<le> 13) \<or> n = 32 \<or> n = 160)"

definition is_letter :: "char \<Rightarrow> bool" where
  "is_letter c = (let n = (of_char c :: nat) in (65 \<le> n \<and> n \<le> 90) \<or> (97 \<le> n \<and> n \<le> 122))"









text \<open>\<open>expect d (s, n)\<close>: the next character of \<open>s\<close> is \<open>d\<close>; \<open>n\<close> counts what has been
  matched so far. \<open>skip_spaces\<close> is a greedy \<open>\s*\<close>.\<close>

definition expect :: "char \<Rightarrow> (string \<times> nat) option \<Rightarrow> (string \<times> nat) option" where
  "expect d st =
     (case st of
        None \<Rightarrow> None
      | Some (s, n) \<Rightarrow> (case s of [] \<Rightarrow> None | c # cs \<Rightarrow> if c = d then Some (cs, Suc n) else None))"

definition skip_spaces :: "(string \<times> nat) option \<Rightarrow> (string \<times> nat) option" where
  "skip_spaces st =
     (case st of
        None \<Rightarrow> None
      | Some (s, n) \<Rightarrow> Some (dropWhile is_space s, n + length (takeWhile is_space s)))"


definition match_doubleParenComma :: "string \<Rightarrow> nat option" where
  "match_doubleParenComma s =
     map_option snd
       (expect CHR ''('' (skip_spaces (expect CHR ''(''
         (skip_spaces (expect CHR '','' (skip_spaces (expect CHR '')''
           (skip_spaces (expect CHR '')'' (Some (s, 0)))))))))))"




subsection \<open>The geometry model\<close>





subsection \<open>Decoding\<close>





















subsection \<open>Encoding\<close>



text \<open>\<open>Array.prototype.join\<close> on strings.\<close>

fun join :: "string \<Rightarrow> string list \<Rightarrow> string" where
  "join sep [] = []"
| "join sep [x] = x"
| "join sep (x # y # ys) = x @ sep @ join sep (y # ys)"

















subsection \<open>Coordinates as numbers\<close>









subsection \<open>A route to encode\<close>



subsection \<open>Geometries and coordinates that round-trip\<close>











text \<open>
  A coordinate survives the two conversions when its text is a token (not empty, free
  of whitespace, parentheses, commas and \<open>|\<close>, and not starting with a letter) and
  the Point constructor reads that token back as the coordinate.
\<close>

definition plain_char :: "char \<Rightarrow> bool" where
  "plain_char c =
     (\<not> is_space c \<and> c \<noteq> CHR ''('' \<and> c \<noteq> CHR '')'' \<and> c \<noteq> CHR '','' \<and> c \<noteq> CHR ''|'')"



subsection \<open>Notions used in the proofs about splitting\<close>

text \<open>No match of the separator starts inside \<open>p\<close> when \<open>p\<close> is followed by \<open>r\<close>.\<close>

definition no_match :: "(string \<Rightarrow> nat option) \<Rightarrow> string \<Rightarrow> string \<Rightarrow> bool" where
  "no_match m p r = (\<forall>i < length p. m (drop i p @ r) = None)"

text \<open>The pieces \<open>ps\<close> with \<open>l\<close> in front of the first and \<open>r\<close> behind the last.\<close>

fun decorate :: "string \<Rightarrow> string \<Rightarrow> string list \<Rightarrow> string list" where
  "decorate l r [] = []"
| "decorate l r [p] = [l @ p @ r]"
| "decorate l r (p # q # ps) = (l @ p) # decorate [] r (q # ps)"

text \<open>
  Every comma of the text is directly followed by a character that is neither
  whitespace nor a letter: \<open>replace_comma_letter\<close> leaves such a text as it is.
\<close>

fun comma_ok :: "string \<Rightarrow> bool" where
  "comma_ok [] = True"
| "comma_ok [c] = (c \<noteq> CHR '','')"
| "comma_ok (c # d # s) =
     ((c \<noteq> CHR '','' \<or> (\<not> is_space d \<and> \<not> is_letter d)) \<and> comma_ok (d # s))"







subsection \<open>The splitting rule as the specification words it\<close>



subsection \<open>Fixtures\<close>









section \<open>Properties of the Route decoder\<close>












text \<open>
  Claim C8. For every JSON object whose \<open>parts\<close> array is absent or empty,
  \<open>Route.fromJson\<close> returns \<open>null\<close>: no Route instance is built, whatever the points
  and the metadata are.
\<close>

theorem fromJson_no_parts:
  "parts jo = None \<or> parts jo = Some [] \<Longrightarrow> fromJson pwm equals (Some jo) = Inr Null"
  by (auto simp: fromJson_def)

theorem fromJson_no_parts_witness:
  "(parts (json_of None (Some [JsonPoint (0::int) 0 0])) = None
      \<or> parts (json_of None (Some [JsonPoint (0::int) 0 0])) = Some [])
   \<and> fromJson PointWithMeasure_fromJson coordinate_equal
        (Some (json_of None (Some [JsonPoint (0::int) 0 0]))) = Inr Null
   \<and> fromJson PointWithMeasure_fromJson coordinate_equal
        (Some (json_of (Some []) (Some [JsonPoint (0::int) 0 0]))) = Inr Null"
  using fromJson_no_parts [of "json_of None (Some [JsonPoint (0::int) 0 0])"
          PointWithMeasure_fromJson coordinate_equal]
        fromJson_no_parts [of "json_of (Some []) (Some [JsonPoint (0::int) 0 0])"
          PointWithMeasure_fromJson coordinate_equal]
  by (simp add: json_of_def)










section \<open>Properties of the Route encoder\<close>









section \<open>Properties of the WKT codec\<close>





subsection \<open>Splitting and trimming the texts the encoder writes\<close>

lemma no_match_Nil: "no_match m [] r"
  by (simp add: no_match_def)

lemma no_match_Cons: "no_match m (c # p) r \<longleftrightarrow> m (c # p @ r) = None \<and> no_match m p r"
  unfolding no_match_def
  by (auto simp: less_Suc_eq_0_disj)




lemma join_Cons2: "ps \<noteq> [] \<Longrightarrow> join b (p # ps) = p @ b @ join b ps"
  by (cases ps) auto














lemma no_match_doubleParenComma_close1: "no_match match_doubleParenComma '')'' []"
  by (simp add: no_match_Nil no_match_Cons match_doubleParenComma_def expect_def skip_spaces_def)

lemma space_facts [simp]:
  "is_space CHR '' ''" "\<not> is_space CHR ''(''" "\<not> is_space CHR '')''" "\<not> is_space CHR '',''"
  "\<not> is_space CHR ''|''"
  by (simp_all add: is_space_def)













lemma comma_ok_tl: "comma_ok (c # s) \<Longrightarrow> comma_ok s"
  by (cases s) auto

lemma plain_not_space: "plain_char c \<Longrightarrow> \<not> is_space c"
  by (simp add: plain_char_def)













lemma join_paren:
  "xs \<noteq> [] \<Longrightarrow> join '','' (map (\<lambda>t. l @ t @ r) xs) = l @ join (r @ '','' @ l) xs @ r"
  by (induction xs rule: list_nonempty_induct) (auto simp: join_Cons2)


lemma decorate_ne: "xs \<noteq> [] \<Longrightarrow> decorate l r xs \<noteq> []"
proof -
  assume a: "xs \<noteq> []"
  then obtain p qs where xs: "xs = p # qs" by (cases xs) auto
  show ?thesis using xs by (cases qs) auto
qed



lemma survives_concat:
  "list_all P (concat (map f cs)) \<Longrightarrow> c \<in> set cs \<Longrightarrow> list_all P (f c)"
  by (auto simp: list_all_iff)

















































subsection \<open>Round trip\<close>








subsection \<open>The point parser\<close>







subsection \<open>The structural splits\<close>



subsection \<open>The members of a collection\<close>











end
